theory Spec2Isabelle
  imports Complex_Main
begin

section \<open>Python values used by the OFX generator\<close>

text \<open>
  A Python \<open>str\<close> is a sequence of code points and \<open>len\<close> counts code points. It is
  modelled as a \<open>string\<close> whose characters stand for the code points U+0000 to U+00FF
  (one \<open>char\<close> per code point), so \<open>length\<close> is \<open>len\<close>. An \<open>Optional[str]\<close> is a
  \<open>string option\<close>; Python's truth test of such a value (\<open>if x:\<close>) holds for a
  non-empty string only.
\<close>

fun truthy :: "string option \<Rightarrow> bool" where
  "truthy None = False"
| "truthy (Some s) = (s \<noteq> [])"

text \<open>The exceptions the modelled code can raise.\<close>

datatype error =
    ValidationError string
  | ValueError string
  | InvalidOperation

subsection \<open>Decimal digits\<close>

definition digit_char :: "nat \<Rightarrow> char" where
  "digit_char d = ''0123456789'' ! d"

definition is_digit :: "char \<Rightarrow> bool" where
  "is_digit c = (48 \<le> (of_char c :: nat) \<and> (of_char c :: nat) \<le> 57)"

definition digit_val :: "char \<Rightarrow> nat" where
  "digit_val c = of_char c - 48"

text \<open>\<open>str(n)\<close> for a non-negative integer \<open>n\<close>: its decimal digits, no leading zero.\<close>

fun str_nat :: "nat \<Rightarrow> string" where
  "str_nat n = (if n < 10 then [digit_char n] else str_nat (n div 10) @ [digit_char (n mod 10)])"

declare str_nat.simps [simp del]

text \<open>\<open>'%+d' % n\<close> and \<open>'0' * k\<close>.\<close>

definition str_signed :: "int \<Rightarrow> string" where
  "str_signed i = (if i < 0 then CHR ''-'' # str_nat (nat (- i)) else CHR ''+'' # str_nat (nat i))"

definition zeros :: "nat \<Rightarrow> string" where
  "zeros k = replicate k (CHR ''0'')"

subsection \<open>\<open>decimal.Decimal\<close>\<close>

text \<open>
  A \<open>Decimal\<close> is a sign, a coefficient and an exponent (the value is
  \<open>\<plusminus> coefficient * 10 ^ exponent\<close>; \<open>Decimal('-100.00')\<close> is \<open>Finite True 10000 (-2)\<close>),
  or one of the special values: an infinity, a quiet NaN or a signalling NaN, the NaNs
  with a sign and a payload. The operations are those of the default arithmetic context
  (rounding ROUND_HALF_EVEN, capitals 1, InvalidOperation trapped), which the repository
  never changes.
\<close>

datatype decimal =
    Finite bool nat int
  | Infinity bool
  | NaN bool nat
  | sNaN bool nat

fun is_finite :: "decimal \<Rightarrow> bool" where
  "is_finite (Finite _ _ _) = True"
| "is_finite _ = False"

text \<open>The rational number a finite \<open>Decimal\<close> denotes.\<close>

fun pow10 :: "int \<Rightarrow> rat" where
  "pow10 e = (if 0 \<le> e then 10 ^ nat e else 1 / 10 ^ nat (- e))"

fun decimal_value :: "decimal \<Rightarrow> rat" where
  "decimal_value (Finite s c e) = (if s then - 1 else 1) * of_nat c * pow10 e"
| "decimal_value _ = 0"

text \<open>
  \<open>amount == Decimal("0")\<close>: comparing with a signalling NaN raises InvalidOperation, a
  quiet NaN is equal to nothing, an infinity is not zero, and a finite value equals zero
  exactly when its coefficient is zero (whatever its sign and exponent).
\<close>

fun decimal_eq_zero :: "decimal \<Rightarrow> error + bool" where
  "decimal_eq_zero (Finite s c e) = Inr (c = 0)"
| "decimal_eq_zero (Infinity s) = Inr False"
| "decimal_eq_zero (NaN s p) = Inr False"
| "decimal_eq_zero (sNaN s p) = Inl InvalidOperation"

text \<open>
  \<open>str(d)\<close>, the scientific string of the General Decimal Arithmetic specification:
  plain notation when the exponent is at most 0 and the number has more than \<open>-6\<close> digits
  left of the point, and otherwise one digit before the point and an exponent.
\<close>

definition sign_str :: "bool \<Rightarrow> string" where
  "sign_str s = (if s then ''-'' else '''')"

definition payload_str :: "nat \<Rightarrow> string" where
  "payload_str p = (if p = 0 then '''' else str_nat p)"

fun decimal_str :: "decimal \<Rightarrow> string" where
  "decimal_str (Infinity s) = sign_str s @ ''Infinity''"
| "decimal_str (NaN s p) = sign_str s @ ''NaN'' @ payload_str p"
| "decimal_str (sNaN s p) = sign_str s @ ''sNaN'' @ payload_str p"
| "decimal_str (Finite s c e) =
     (let ds = str_nat c;
          leftdigits = e + int (length ds);
          dotplace = (if e \<le> 0 \<and> leftdigits > - 6 then leftdigits else 1);
          intpart = (if dotplace \<le> 0 then ''0''
                     else if dotplace \<ge> int (length ds)
                       then ds @ zeros (nat (dotplace - int (length ds)))
                     else take (nat dotplace) ds);
          fracpart = (if dotplace \<le> 0 then ''.'' @ zeros (nat (- dotplace)) @ ds
                      else if dotplace \<ge> int (length ds) then ''''
                      else ''.'' @ drop (nat dotplace) ds);
          ex = (if leftdigits = dotplace then '''' else ''E'' @ str_signed (leftdigits - dotplace))
      in sign_str s @ intpart @ fracpart @ ex)"

subsection \<open>\<open>datetime.date\<close>\<close>

text \<open>
  A \<open>date\<close> is a day of the proleptic Gregorian calendar with a year from 1 to 9999;
  \<open>valid_date\<close> is the check of its constructor.
\<close>

record date =
  year :: nat
  month :: nat
  day :: nat

definition is_leap :: "nat \<Rightarrow> bool" where
  "is_leap y = (y mod 4 = 0 \<and> (y mod 100 \<noteq> 0 \<or> y mod 400 = 0))"

definition days_in_month :: "nat \<Rightarrow> nat \<Rightarrow> nat" where
  "days_in_month y m =
     (if m = 2 then (if is_leap y then 29 else 28)
      else if m = 4 \<or> m = 6 \<or> m = 9 \<or> m = 11 then 30 else 31)"

definition valid_date :: "date \<Rightarrow> bool" where
  "valid_date d =
     (1 \<le> year d \<and> year d \<le> 9999 \<and> 1 \<le> month d \<and> month d \<le> 12 \<and>
      1 \<le> day d \<and> day d \<le> days_in_month (year d) (month d))"

text \<open>\<open>end_date >= start_date\<close>: dates compare by year, then month, then day.\<close>

definition date_ge :: "date \<Rightarrow> date \<Rightarrow> bool" where
  "date_ge a b =
     (year a > year b \<or> (year a = year b \<and>
        (month a > month b \<or> (month a = month b \<and> day a \<ge> day b))))"

section \<open>standards.py\<close>

datatype TransactionType =
    CREDIT | DEBIT | INTEREST | DIVIDEND | FEE | SERVICE_CHARGE | DEPOSIT | ATM
  | POINT_OF_SALE | TRANSFER | CHECK | PAYMENT | CASH | DIRECT_DEPOSIT | DIRECT_DEBIT
  | REPEATING_PAYMENT | OTHER

fun TransactionType_value :: "TransactionType \<Rightarrow> string" where
  "TransactionType_value CREDIT = ''CREDIT''"
| "TransactionType_value DEBIT = ''DEBIT''"
| "TransactionType_value INTEREST = ''INT''"
| "TransactionType_value DIVIDEND = ''DIV''"
| "TransactionType_value FEE = ''FEE''"
| "TransactionType_value SERVICE_CHARGE = ''SRVCHG''"
| "TransactionType_value DEPOSIT = ''DEP''"
| "TransactionType_value ATM = ''ATM''"
| "TransactionType_value POINT_OF_SALE = ''POS''"
| "TransactionType_value TRANSFER = ''XFER''"
| "TransactionType_value CHECK = ''CHECK''"
| "TransactionType_value PAYMENT = ''PAYMENT''"
| "TransactionType_value CASH = ''CASH''"
| "TransactionType_value DIRECT_DEPOSIT = ''DIRECTDEP''"
| "TransactionType_value DIRECT_DEBIT = ''DIRECTDEBIT''"
| "TransactionType_value REPEATING_PAYMENT = ''REPEATPMT''"
| "TransactionType_value OTHER = ''OTHER''"

datatype AccountType = CHECKING | SAVINGS | MONEY_MARKET | CREDIT_LINE | CERTIFICATE_OF_DEPOSIT

fun AccountType_value :: "AccountType \<Rightarrow> string" where
  "AccountType_value CHECKING = ''CHECKING''"
| "AccountType_value SAVINGS = ''SAVINGS''"
| "AccountType_value MONEY_MARKET = ''MONEYMRKT''"
| "AccountType_value CREDIT_LINE = ''CREDITLINE''"
| "AccountType_value CERTIFICATE_OF_DEPOSIT = ''CD''"


datatype Language = ENGLISH | PORTUGUESE | SPANISH | FRENCH | GERMAN | ITALIAN

fun Language_value :: "Language \<Rightarrow> string" where
  "Language_value ENGLISH = ''ENG''"
| "Language_value PORTUGUESE = ''POR''"
| "Language_value SPANISH = ''SPA''"
| "Language_value FRENCH = ''FRA''"
| "Language_value GERMAN = ''DEU''"
| "Language_value ITALIAN = ''ITA''"

datatype Currency = US_DOLLAR | BRAZILIAN_REAL | EURO | BRITISH_POUND

fun Currency_value :: "Currency \<Rightarrow> string" where
  "Currency_value US_DOLLAR = ''USD''"
| "Currency_value BRAZILIAN_REAL = ''BRL''"
| "Currency_value EURO = ''EUR''"
| "Currency_value BRITISH_POUND = ''GBP''"

definition validate_date_range :: "date \<Rightarrow> date \<Rightarrow> bool" where
  "validate_date_range start_date end_date = date_ge end_date start_date"







definition validate_fit_id :: "string \<Rightarrow> bool" where
  "validate_fit_id fit_id = (fit_id \<noteq> [] \<and> length fit_id \<le> 255)"

section \<open>models.py\<close>

record FinancialInstitution =
  org :: string
  fid :: string

definition FinancialInstitution_new :: "string \<Rightarrow> string \<Rightarrow> error + FinancialInstitution" where
  "FinancialInstitution_new o_name f_id =
     (if o_name = [] \<or> length o_name > 60
        then Inl (ValidationError ''Organization name must be between 1 and 60 characters'')
      else if f_id = [] \<or> length f_id > 32
        then Inl (ValidationError ''FID must be between 1 and 32 characters'')
      else Inr \<lparr>org = o_name, fid = f_id\<rparr>)"

record BankAccount =
  bank_id :: string
  account_id :: string
  account_type :: AccountType
  branch_id :: "string option"



record Transaction =
  transaction_type :: TransactionType
  date_posted :: date
  amount :: decimal
  fit_id :: string
  check_num :: "string option"
  ref_num :: "string option"
  memo :: "string option"

text \<open>
  \<open>Transaction\<close> is decorated with \<open>@dataclass\<close> but declares no field and defines
  \<open>__init__\<close> itself. The decorator never replaces an \<open>__init__\<close> the class defines, and
  only the \<open>__init__\<close> it generates calls \<open>__post_init__\<close>. So constructing a
  \<open>Transaction\<close> runs \<open>Transaction_init\<close> alone; \<open>Transaction_post_init\<close> is what the
  method would do if something called it. The transaction type is a member of
  \<open>TransactionType\<close>, as the signature says, so the coercion at the head of
  \<open>__post_init__\<close> has nothing to do.
\<close>

definition Transaction_init ::
  "TransactionType \<Rightarrow> date \<Rightarrow> decimal \<Rightarrow> string \<Rightarrow> string option \<Rightarrow> string option \<Rightarrow>
   string option \<Rightarrow> error + Transaction" where
  "Transaction_init tt dp amt fit chk rf mm =
     (case decimal_eq_zero amt of
        Inl e \<Rightarrow> Inl e
      | Inr True \<Rightarrow> Inl (ValidationError ''Transaction amount cannot be zero'')
      | Inr False \<Rightarrow>
          Inr \<lparr>transaction_type = tt, date_posted = dp, amount = amt, fit_id = fit,
               check_num = chk, ref_num = rf, memo = mm\<rparr>)"

definition Transaction_post_init :: "Transaction \<Rightarrow> error + Transaction" where
  "Transaction_post_init t =
     (if \<not> validate_fit_id (fit_id t) then Inl (ValidationError ''Invalid FIT ID format'')
      else if truthy (memo t) \<and> length (the (memo t)) > 255
        then Inl (ValidationError ''Memo must not exceed 255 characters'')
      else if truthy (check_num t) \<and> length (the (check_num t)) > 32
        then Inl (ValidationError ''Check number must not exceed 32 characters'')
      else if truthy (ref_num t) \<and> length (the (ref_num t)) > 32
        then Inl (ValidationError ''Reference number must not exceed 32 characters'')
      else Inr t)"

record Balance =
  bal_amount :: decimal
  date_as_of :: date

text \<open>
  \<open>Balance.amount\<close> is named \<open>bal_amount\<close> here, since a field name belongs to one record.
  The generator reads only the language and the currency of \<open>OFXSettings\<close>; the other
  fields keep their declared types.
\<close>

datatype Encoding = ASCII | UTF8

datatype Security = SECURITY_NONE | TYPE1

datatype Compression = COMPRESSION_NONE

record OFXSettings =
  language :: Language
  currency :: Currency
  version :: int
  encoding :: Encoding
  charset :: int
  security :: Security
  compression :: Compression

text \<open>
  The two figures of a \<open>CreditCardAccount\<close> are Python floats. Their type is left open
  (\<open>'f\<close>), and \<open>str\<close> of a float is a function the platform provides.
\<close>

record 'f CreditCardAccount =
  cash_advance_available_amount :: 'f
  cash_advance_credit_limit :: 'f

record 'f BankStatement =
  financial_institution :: FinancialInstitution
  bank_account :: BankAccount
  balance :: Balance
  start_date :: date
  end_date :: date
  transactions :: "Transaction list"
  settings :: OFXSettings
  credit_card_account :: "'f CreditCardAccount option"

definition BankStatement_new ::
  "FinancialInstitution \<Rightarrow> BankAccount \<Rightarrow> Balance \<Rightarrow> date \<Rightarrow> date \<Rightarrow> Transaction list \<Rightarrow>
   OFXSettings \<Rightarrow> 'f CreditCardAccount option \<Rightarrow> error + 'f BankStatement" where
  "BankStatement_new fi acct bal sd ed ts st cc =
     (if \<not> validate_date_range sd ed
        then Inl (ValidationError ''End date must not be before start date'')
      else Inr \<lparr>financial_institution = fi, bank_account = acct, balance = bal,
                start_date = sd, end_date = ed, transactions = ts, settings = st,
                credit_card_account = cc\<rparr>)"

section \<open>formatters.py\<close>

text \<open>
  What the code takes from the platform it runs on. \<open>date.strftime\<close> hands \<open>%Y\<close> to the
  C library: some C libraries and CPython versions write the year with at least four
  digits, zero-padded (\<open>pads_year\<close>), others write it as a plain decimal number (so
  CPython 3.11 on Linux with glibc, where \<open>date(999, 1, 1).strftime("%Y")\<close> is
  \<open>'999'\<close>). \<open>%m\<close> and \<open>%d\<close> are two digits everywhere.
\<close>

record 'f platform =
  pads_year :: bool
  float_str :: "'f \<Rightarrow> string"

definition pad2 :: "nat \<Rightarrow> string" where
  "pad2 n = zeros (2 - length (str_nat n)) @ str_nat n"

definition strftime_Y :: "bool \<Rightarrow> nat \<Rightarrow> string" where
  "strftime_Y pads y = (if pads then zeros (4 - length (str_nat y)) @ str_nat y else str_nat y)"

text \<open>\<open>value.strftime("%Y%m%d")\<close>\<close>

definition strftime_Ymd :: "bool \<Rightarrow> date \<Rightarrow> string" where
  "strftime_Ymd pads d = strftime_Y pads (year d) @ pad2 (month d) @ pad2 (day d)"

definition DefaultDateFormatter_format :: "bool \<Rightarrow> date \<Rightarrow> string" where
  "DefaultDateFormatter_format pads v = strftime_Ymd pads v"

definition format_datetime :: "bool \<Rightarrow> date \<Rightarrow> string" where
  "format_datetime pads v = strftime_Ymd pads v"

text \<open>
  \<open>f"{value:.2f}"\<close> is \<open>Decimal.__format__\<close> with precision 2 and type \<open>f\<close>: the value
  is rescaled to the exponent \<open>-2\<close> with the rounding of the context (ROUND_HALF_EVEN),
  then written in fixed-point notation. \<open>round_half_even c k\<close> is the coefficient \<open>c\<close>
  with its last \<open>k\<close> digits rounded away.
\<close>

definition round_half_even :: "nat \<Rightarrow> nat \<Rightarrow> nat" where
  "round_half_even c k =
     (let q = c div 10 ^ k; r = c mod 10 ^ k
      in if 2 * r > 10 ^ k \<or> (2 * r = 10 ^ k \<and> odd q) then q + 1 else q)"

fun rescale :: "decimal \<Rightarrow> int \<Rightarrow> decimal" where
  "rescale (Finite s c e) ex =
     (if c = 0 then Finite s 0 ex
      else if e \<ge> ex then Finite s (c * 10 ^ nat (e - ex)) ex
      else Finite s (round_half_even c (nat (ex - e))) ex)"
| "rescale d ex = d"

fun decimal_format_2f :: "decimal \<Rightarrow> string" where
  "decimal_format_2f (Infinity s) = sign_str s @ ''Infinity''"
| "decimal_format_2f (NaN s p) = sign_str s @ ''NaN'' @ payload_str p"
| "decimal_format_2f (sNaN s p) = sign_str s @ ''sNaN'' @ payload_str p"
| "decimal_format_2f (Finite s c e) =
     (case rescale (Finite s c e) (- 2) of
        Finite s' c' e' \<Rightarrow>
          (let ds = str_nat c';
               dotplace = e' + int (length ds);
               intpart = (if dotplace < 0 then ''0''
                          else if dotplace > int (length ds)
                            then ds @ zeros (nat (dotplace - int (length ds)))
                          else if take (nat dotplace) ds = [] then ''0''
                          else take (nat dotplace) ds);
               fracpart = (if dotplace < 0 then zeros (nat (- dotplace)) @ ds
                           else if dotplace > int (length ds) then []
                           else drop (nat dotplace) ds)
           in sign_str s' @ intpart @ (if fracpart = [] then [] else ''.'' @ fracpart))
      | d \<Rightarrow> decimal_str d)"

definition DefaultAmountFormatter_format :: "decimal \<Rightarrow> string" where
  "DefaultAmountFormatter_format v = decimal_format_2f v"

definition dq :: string where
  "dq = [CHR 0x22]"

definition format_ofx_header :: string where
  "format_ofx_header =
     ''<?OFX OFXHEADER='' @ dq @ ''200'' @ dq @ '' VERSION='' @ dq @ ''230'' @ dq @
     '' SECURITY='' @ dq @ ''NONE'' @ dq @ '' OLDFILEUID='' @ dq @ ''NONE'' @ dq @
     '' NEWFILEUID='' @ dq @ ''NONE'' @ dq @ ''?>'' @ [CHR 0x0A]"

section \<open>\<open>xml.etree.ElementTree\<close>\<close>

text \<open>
  An element has a tag, attributes in insertion order, an optional text and children
  in the order they were appended. \<open>ET.SubElement(parent, tag)\<close> appends a new element
  to \<open>parent\<close>; the model builds the child and appends it (\<open>append_child\<close>). A text
  that is a member of a string enumeration is written as the member's value.
\<close>

datatype element =
  Element (tag: string) (attrib: "(string \<times> string) list") (etext: "string option")
    (children: "element list")

definition leaf :: "string \<Rightarrow> string option \<Rightarrow> element" where
  "leaf t x = Element t [] x []"

fun append_child :: "element \<Rightarrow> element \<Rightarrow> element" where
  "append_child (Element t a x cs) c = Element t a x (cs @ [c])"

definition escape_cdata :: "string \<Rightarrow> string" where
  "escape_cdata s =
     concat (map (\<lambda>c. if c = CHR ''&'' then ''&amp;''
                       else if c = CHR ''<'' then ''&lt;''
                       else if c = CHR ''>'' then ''&gt;'' else [c]) s)"

definition escape_attrib :: "string \<Rightarrow> string" where
  "escape_attrib s =
     concat (map (\<lambda>c. if c = CHR ''&'' then ''&amp;''
                       else if c = CHR ''<'' then ''&lt;''
                       else if c = CHR ''>'' then ''&gt;''
                       else if c = CHR 0x22 then ''&quot;''
                       else if c = CHR 0x0D then ''&#13;''
                       else if c = CHR 0x0A then ''&#10;''
                       else if c = CHR 0x09 then ''&#09;'' else [c]) s)"

text \<open>
  \<open>ET.tostring(elem, encoding="unicode", method="xml")\<close>: an element with neither text
  nor children is written in the short form \<open><TAG />\<close>, whether its text is \<open>None\<close> or
  the empty string.
\<close>

fun serialize_xml :: "element \<Rightarrow> string" where
  "serialize_xml (Element t a x cs) =
     ''<'' @ t @ concat (map (\<lambda>(k, v). '' '' @ k @ ''='' @ dq @ escape_attrib v @ dq) a) @
     (if truthy x \<or> cs \<noteq> []
        then ''>'' @ (if truthy x then escape_cdata (the x) else []) @
             concat (map serialize_xml cs) @ ''</'' @ t @ ''>''
      else '' />'')"

text \<open>All elements of a document, in document order, and the children with a given tag.\<close>

fun elements :: "element \<Rightarrow> element list" where
  "elements (Element t a x cs) = Element t a x cs # concat (map elements cs)"

definition children_tagged :: "string \<Rightarrow> element \<Rightarrow> element list" where
  "children_tagged t e = filter (\<lambda>c. tag c = t) (children e)"

section \<open>generator.py\<close>

record OFXGenerator =
  date_formatter :: "date \<Rightarrow> string"
  amount_formatter :: "decimal \<Rightarrow> string"

text \<open>\<open>OFXGenerator(date_formatter=None, amount_formatter=None)\<close>\<close>

definition OFXGenerator_init ::
  "'f platform \<Rightarrow> (date \<Rightarrow> string) option \<Rightarrow> (decimal \<Rightarrow> string) option \<Rightarrow> OFXGenerator" where
  "OFXGenerator_init P df af =
     \<lparr>date_formatter = (case df of None \<Rightarrow> DefaultDateFormatter_format (pads_year P) | Some f \<Rightarrow> f),
      amount_formatter = (case af of None \<Rightarrow> DefaultAmountFormatter_format | Some f \<Rightarrow> f)\<rparr>"

definition create_ofx_element :: element where
  "create_ofx_element =
     Element ''OFX''
       [(''xmlns'', ''http://ofx.net/ifx/2.0/ofx''),
        (''xmlns:xsi'', ''http://www.w3.org/2001/XMLSchema-instance'')] None []"

definition status_element :: element where
  "status_element =
     Element ''STATUS'' [] None [leaf ''CODE'' (Some ''0''), leaf ''SEVERITY'' (Some ''INFO'')]"

definition add_signon_response ::
  "'f platform \<Rightarrow> OFXGenerator \<Rightarrow> element \<Rightarrow> 'f BankStatement \<Rightarrow> element" where
  "add_signon_response P self ofx statement =
     append_child ofx
       (Element ''SIGNONMSGSRSV1'' [] None
          [Element ''SONRS'' [] None
             [status_element,
              leaf ''DTSERVER'' (Some (format_datetime (pads_year P) (end_date statement))),
              leaf ''LANGUAGE'' (Some (Language_value (language (settings statement)))),
              Element ''FI'' [] None
                [leaf ''ORG'' (Some (org (financial_institution statement))),
                 leaf ''FID'' (Some (fid (financial_institution statement)))]]])"

definition add_account_info :: "OFXGenerator \<Rightarrow> element \<Rightarrow> BankAccount \<Rightarrow> element" where
  "add_account_info self stmt_rs account =
     append_child stmt_rs
       (Element ''BANKACCTFROM'' [] None
          [leaf ''BANKID'' (Some (bank_id account)),
           leaf ''BRANCHID'' (branch_id account),
           leaf ''ACCTID'' (Some (account_id account)),
           leaf ''ACCTTYPE'' (Some (AccountType_value (account_type account)))])"

text \<open>
  One pass of the loop over \<open>statement.transactions\<close>: the \<open>STMTTRN\<close> aggregate of
  the transaction (\<open>stmttrn\<close>), appended to the transaction list.
\<close>

definition stmttrn :: "'f platform \<Rightarrow> OFXGenerator \<Rightarrow> Transaction \<Rightarrow> element" where
  "stmttrn P self transaction =
     Element ''STMTTRN'' [] None
       ([leaf ''TRNTYPE'' (Some (TransactionType_value (transaction_type transaction))),
         leaf ''DTPOSTED'' (Some (format_datetime (pads_year P) (date_posted transaction))),
         leaf ''TRNAMT'' (Some (decimal_str (amount transaction))),
         leaf ''FITID'' (Some (fit_id transaction))] @
        (if truthy (check_num transaction)
           then [leaf ''CHECKNUM'' (check_num transaction)] else []) @
        (if truthy (ref_num transaction)
           then [leaf ''REFNUM'' (ref_num transaction)] else []) @
        (if truthy (memo transaction)
           then [leaf ''MEMO'' (memo transaction)] else []))"

definition add_transaction ::
  "'f platform \<Rightarrow> OFXGenerator \<Rightarrow> Transaction \<Rightarrow> element \<Rightarrow> element" where
  "add_transaction P self transaction trans_list =
     append_child trans_list (stmttrn P self transaction)"

definition add_transactions ::
  "'f platform \<Rightarrow> OFXGenerator \<Rightarrow> element \<Rightarrow> 'f BankStatement \<Rightarrow> element" where
  "add_transactions P self stmt_rs statement =
     append_child stmt_rs
       (fold (add_transaction P self) (transactions statement)
          (Element ''BANKTRANLIST'' [] None
             [leaf ''DTSTART'' (Some (format_datetime (pads_year P) (start_date statement))),
              leaf ''DTEND'' (Some (format_datetime (pads_year P) (end_date statement)))]))"

definition add_balance :: "'f platform \<Rightarrow> OFXGenerator \<Rightarrow> element \<Rightarrow> Balance \<Rightarrow> element" where
  "add_balance P self stmt_rs bal =
     append_child stmt_rs
       (Element ''LEDGERBAL'' [] None
          [leaf ''BALAMT'' (Some (decimal_str (bal_amount bal))),
           leaf ''DTASOF'' (Some (format_datetime (pads_year P) (date_as_of bal)))])"

text \<open>An instance of the dataclass \<open>CreditCardAccount\<close> is always true; \<open>None\<close> is not.\<close>

definition add_credit_card_info ::
  "'f platform \<Rightarrow> OFXGenerator \<Rightarrow> element \<Rightarrow> 'f CreditCardAccount option \<Rightarrow> element" where
  "add_credit_card_info P self ofx cc =
     (case cc of
        None \<Rightarrow> ofx
      | Some c \<Rightarrow>
          append_child
            (append_child ofx
               (leaf ''CASHADVAVAILAMT'' (Some (float_str P (cash_advance_available_amount c)))))
            (leaf ''CASHADVCREDITLIMIT'' (Some (float_str P (cash_advance_credit_limit c)))))"

definition add_bank_statement ::
  "'f platform \<Rightarrow> OFXGenerator \<Rightarrow> element \<Rightarrow> 'f BankStatement \<Rightarrow> string \<Rightarrow> element" where
  "add_bank_statement P self ofx statement trnuid =
     (let stmt_rs = Element ''STMTRS'' [] None
                      [leaf ''CURDEF'' (Some (Currency_value (currency (settings statement))))];
          stmt_rs = add_account_info self stmt_rs (bank_account statement);
          stmt_rs = add_transactions P self stmt_rs statement;
          stmt_rs = add_balance P self stmt_rs (balance statement);
          stmt_trnrs = Element ''STMTTRNRS'' [] None
                         [leaf ''TRNUID'' (Some trnuid), status_element, stmt_rs];
          bank_msgs = Element ''BANKMSGSRSV1'' [] None [stmt_trnrs]
      in add_credit_card_info P self (append_child ofx bank_msgs) (credit_card_account statement))"

definition generate_output :: "element \<Rightarrow> string" where
  "generate_output ofx =
     ''<?xml version='' @ dq @ ''1.0'' @ dq @ '' encoding='' @ dq @ ''UTF-8'' @ dq @
     '' standalone='' @ dq @ ''no'' @ dq @ ''?>'' @ [CHR 0x0A] @
     format_ofx_header @ serialize_xml ofx"

text \<open>The element tree \<open>generate\<close> builds, and the document it returns.\<close>

definition generate_tree ::
  "'f platform \<Rightarrow> OFXGenerator \<Rightarrow> 'f BankStatement \<Rightarrow> string \<Rightarrow> element" where
  "generate_tree P self statement trnuid =
     (let ofx = create_ofx_element;
          ofx = add_signon_response P self ofx statement
      in add_bank_statement P self ofx statement trnuid)"

definition generate :: "'f platform \<Rightarrow> OFXGenerator \<Rightarrow> 'f BankStatement \<Rightarrow> string \<Rightarrow> string" where
  "generate P self statement trnuid = generate_output (generate_tree P self statement trnuid)"

section \<open>examples/example_usage.py\<close>

text \<open>
  The statement the example script builds, on a platform whose \<open>strftime\<close> does not pad
  the year. The two floats of the example are whole numbers; \<open>whole_float_str\<close> is
  \<open>str\<close> of a float that is a whole number below \<open>10 ^ 16\<close> in magnitude, given as that
  number.
\<close>

definition whole_float_str :: "int \<Rightarrow> string" where
  "whole_float_str i = (if i < 0 then ''-'' else []) @ str_nat (nat \<bar>i\<bar>) @ ''.0''"

definition example_platform :: "int platform" where
  "example_platform = \<lparr>pads_year = False, float_str = whole_float_str\<rparr>"

definition example_transactions :: "Transaction list" where
  "example_transactions =
     [\<lparr>transaction_type = PAYMENT, date_posted = \<lparr>year = 2025, month = 1, day = 30\<rparr>,
       amount = Finite True 10000 (- 2), fit_id = ''202501300000'',
       check_num = Some ''000'', ref_num = Some ''000'', memo = Some ''Payment to Vendor''\<rparr>,
      \<lparr>transaction_type = CREDIT, date_posted = \<lparr>year = 2025, month = 1, day = 22\<rparr>,
       amount = Finite False 50000 (- 2), fit_id = ''202501220000'',
       check_num = Some ''000'', ref_num = Some ''000'', memo = Some ''Salary Payment''\<rparr>]"

definition example_statement :: "int BankStatement" where
  "example_statement =
     \<lparr>financial_institution = \<lparr>org = ''Example Bank'', fid = ''000''\<rparr>,
      bank_account = \<lparr>bank_id = ''000'', account_id = ''000000000'',
                      account_type = CHECKING, branch_id = Some ''0000-0''\<rparr>,
      balance = \<lparr>bal_amount = Finite False 100000 (- 2),
                 date_as_of = \<lparr>year = 2025, month = 1, day = 31\<rparr>\<rparr>,
      start_date = \<lparr>year = 2025, month = 1, day = 1\<rparr>,
      end_date = \<lparr>year = 2025, month = 1, day = 31\<rparr>,
      transactions = example_transactions,
      settings = \<lparr>language = PORTUGUESE, currency = BRAZILIAN_REAL, version = 211,
                  encoding = UTF8, charset = 1252, security = SECURITY_NONE,
                  compression = COMPRESSION_NONE\<rparr>,
      credit_card_account =
        Some \<lparr>cash_advance_available_amount = 1000, cash_advance_credit_limit = 5000\<rparr>\<rparr>"

text \<open>
  A formatter a caller may supply instead of the default: \<open>value.isoformat()\<close>, that
  is \<open>YYYY-MM-DD\<close>.
\<close>

definition iso_date_format :: "date \<Rightarrow> string" where
  "iso_date_format d =
     zeros (4 - length (str_nat (year d))) @ str_nat (year d) @ ''-'' @
     pad2 (month d) @ ''-'' @ pad2 (day d)"

text \<open>
  A transaction constructed without check number, reference number and memo, and a
  statement that holds it in front of the example's transactions, for an account with
  no branch id and with no credit card account.
\<close>

definition plain_transaction :: Transaction where
  "plain_transaction =
     \<lparr>transaction_type = DEBIT, date_posted = \<lparr>year = 2025, month = 1, day = 15\<rparr>,
      amount = Finite True 2550 (- 2), fit_id = ''202501150000'',
      check_num = None, ref_num = None, memo = None\<rparr>"

definition plain_statement :: "int BankStatement" where
  "plain_statement =
     example_statement
       \<lparr>bank_account := \<lparr>bank_id = ''000'', account_id = ''000000000'',
                          account_type = SAVINGS, branch_id = None\<rparr>,
        transactions := plain_transaction # example_transactions,
        credit_card_account := None\<rparr>"

definition default_generator :: OFXGenerator where
  "default_generator = OFXGenerator_init example_platform None None"

section \<open>Reading formatted values back\<close>

text \<open>
  The readers below are not code of the repository: they are the inverse conventions
  the specification states the formatters' properties with.
\<close>

definition nat_of_digits :: "string \<Rightarrow> nat" where
  "nat_of_digits ds = foldl (\<lambda>n c. 10 * n + digit_val c) 0 ds"

text \<open>
  The inverse convention of the date format: an 8-character string of digits is read
  as four digits of year, two of month and two of day, and must name a valid date.
\<close>

definition strptime_Ymd :: "string \<Rightarrow> date option" where
  "strptime_Ymd s =
     (if length s = 8 \<and> list_all is_digit s
      then (let d = \<lparr>year = nat_of_digits (take 4 s),
                     month = nat_of_digits (take 2 (drop 4 s)),
                     day = nat_of_digits (drop 6 s)\<rparr>
            in if valid_date d then Some d else None)
      else None)"



section \<open>Construction of a transaction\<close>

text \<open>
  Claim C8. Constructing a \<open>Transaction\<close> whose amount is exactly zero (a finite decimal
  of value 0, whatever its sign and exponent) fails with the validation error of the
  zero-amount check. For every non-zero amount the check lets the input through and the
  transaction is built; a special value (an infinity or a NaN) is never rejected by the
  zero-amount check either.
\<close>

theorem transaction_zero_amount_rejected:
  "(is_finite amt \<and> decimal_value amt = 0 \<longrightarrow>
     Transaction_init tt dp amt fit chk rf mm =
       Inl (ValidationError ''Transaction amount cannot be zero'')) \<and>
   (is_finite amt \<and> decimal_value amt \<noteq> 0 \<longrightarrow>
     Transaction_init tt dp amt fit chk rf mm =
       Inr \<lparr>transaction_type = tt, date_posted = dp, amount = amt, fit_id = fit,
            check_num = chk, ref_num = rf, memo = mm\<rparr>) \<and>
   (\<not> is_finite amt \<longrightarrow>
     Transaction_init tt dp amt fit chk rf mm \<noteq>
       Inl (ValidationError ''Transaction amount cannot be zero''))"
  by (cases amt) (auto simp: Transaction_init_def)

theorem transaction_zero_amount_rejected_witness:
  "Transaction_init PAYMENT \<lparr>year = 2025, month = 1, day = 30\<rparr> (Finite False 0 (- 2))
     ''202501300000'' None None None =
     Inl (ValidationError ''Transaction amount cannot be zero'') \<and>
   Transaction_init PAYMENT \<lparr>year = 2025, month = 1, day = 30\<rparr> (Finite True 10000 (- 2))
     ''202501300000'' None None None =
     Inr \<lparr>transaction_type = PAYMENT, date_posted = \<lparr>year = 2025, month = 1, day = 30\<rparr>,
          amount = Finite True 10000 (- 2), fit_id = ''202501300000'',
          check_num = None, ref_num = None, memo = None\<rparr> \<and>
   Transaction_init PAYMENT \<lparr>year = 2025, month = 1, day = 30\<rparr> (NaN False 0)
     ''202501300000'' None None None \<noteq>
     Inl (ValidationError ''Transaction amount cannot be zero'')"
  using
    transaction_zero_amount_rejected [of "Finite False 0 (- 2)" PAYMENT
      "\<lparr>year = 2025, month = 1, day = 30\<rparr>" "''202501300000''" None None None]
    transaction_zero_amount_rejected [of "Finite True 10000 (- 2)" PAYMENT
      "\<lparr>year = 2025, month = 1, day = 30\<rparr>" "''202501300000''" None None None]
    transaction_zero_amount_rejected [of "NaN False 0" PAYMENT
      "\<lparr>year = 2025, month = 1, day = 30\<rparr>" "''202501300000''" None None None]
  by simp

text \<open>
  Claim C1. A \<open>Transaction\<close> with an empty \<open>fit_id\<close> should fail to construct. It does
  not: \<open>__init__\<close> checks the amount only, and \<open>__post_init__\<close>, which holds the
  \<open>validate_fit_id\<close> check, is never called. The transaction with the empty id is
  built, although \<open>validate_fit_id\<close> refuses the id and \<open>__post_init__\<close> would raise.
\<close>

theorem transaction_empty_fit_id_constructs:
  "Transaction_init CREDIT \<lparr>year = 2025, month = 1, day = 22\<rparr> (Finite False 50000 (- 2))
     [] None None None =
     Inr \<lparr>transaction_type = CREDIT, date_posted = \<lparr>year = 2025, month = 1, day = 22\<rparr>,
          amount = Finite False 50000 (- 2), fit_id = [],
          check_num = None, ref_num = None, memo = None\<rparr> \<and>
   \<not> validate_fit_id [] \<and>
   Transaction_post_init
     \<lparr>transaction_type = CREDIT, date_posted = \<lparr>year = 2025, month = 1, day = 22\<rparr>,
      amount = Finite False 50000 (- 2), fit_id = [],
      check_num = None, ref_num = None, memo = None\<rparr> =
     Inl (ValidationError ''Invalid FIT ID format'')"
  by (simp add: Transaction_init_def validate_fit_id_def Transaction_post_init_def)

section \<open>The generator and its formatters\<close>

text \<open>Definitions to unfold when a document is computed for a concrete statement.\<close>

lemmas generator_defs =
  generate_tree_def add_signon_response_def add_bank_statement_def create_ofx_element_def
  add_account_info_def add_transactions_def add_transaction_def add_balance_def
  add_credit_card_info_def stmttrn_def leaf_def status_element_def

lemmas date_format_defs =
  format_datetime_def DefaultDateFormatter_format_def strftime_Ymd_def strftime_Y_def
  pad2_def str_nat.simps digit_char_def zeros_def

lemmas example_defs = example_statement_def example_platform_def example_transactions_def

text \<open>No function of the generator reads a field of \<open>self\<close>.\<close>

lemma add_transaction_self: "add_transaction P self = add_transaction P self'"
  by (intro ext) (simp add: add_transaction_def stmttrn_def)

lemma generate_tree_self:
  "generate_tree P self statement trnuid = generate_tree P self' statement trnuid"
  using add_transaction_self [of P self self']
  by (simp add: generate_tree_def add_signon_response_def add_bank_statement_def
      add_account_info_def add_transactions_def add_balance_def add_credit_card_info_def)

text \<open>
  Claim C2. Every date element should be the configured date formatter applied to the
  model's date. It is not: the generator stores the formatter it is given and then
  formats every date with the module function \<open>format_datetime\<close>. For the example
  statement and a generator constructed with the ISO formatter, which writes the end
  date as \<open>2025-01-31\<close>, the \<open>DTSERVER\<close> element is still \<open>20250131\<close>, and the whole
  document is the one the default generator returns.
\<close>

theorem custom_date_formatter_not_used:
  "iso_date_format (end_date example_statement) = ''2025-01-31'' \<and>
   map etext (filter (\<lambda>e. tag e = ''DTSERVER'')
     (elements (generate_tree example_platform
        (OFXGenerator_init example_platform (Some iso_date_format) None)
        example_statement ''1001''))) = [Some ''20250131''] \<and>
   generate example_platform (OFXGenerator_init example_platform (Some iso_date_format) None)
     example_statement ''1001'' =
   generate example_platform (OFXGenerator_init example_platform None None)
     example_statement ''1001''"
proof (intro conjI)
  show "iso_date_format (end_date example_statement) = ''2025-01-31''"
    by (simp add: iso_date_format_def example_defs date_format_defs)
  show "map etext (filter (\<lambda>e. tag e = ''DTSERVER'')
     (elements (generate_tree example_platform
        (OFXGenerator_init example_platform (Some iso_date_format) None)
        example_statement ''1001''))) = [Some ''20250131'']"
    by (simp add: generator_defs example_defs date_format_defs)
  show "generate example_platform (OFXGenerator_init example_platform (Some iso_date_format) None)
     example_statement ''1001'' =
   generate example_platform (OFXGenerator_init example_platform None None)
     example_statement ''1001''"
    unfolding generate_def
    by (rule arg_cong [where f = generate_output]) (rule generate_tree_self)
qed



section \<open>The shape of the generated document\<close>

lemma fold_add_transaction:
  "fold (add_transaction P self) ts (Element t a x cs) =
   Element t a x (cs @ map (stmttrn P self) ts)"
  by (induction ts arbitrary: cs) (simp_all add: add_transaction_def)

text \<open>The tree \<open>generate\<close> builds, with the loop over the transactions resolved.\<close>

lemma generate_tree_shape:
  "generate_tree P self st uid =
   Element ''OFX''
     [(''xmlns'', ''http://ofx.net/ifx/2.0/ofx''),
      (''xmlns:xsi'', ''http://www.w3.org/2001/XMLSchema-instance'')] None
     ([Element ''SIGNONMSGSRSV1'' [] None
         [Element ''SONRS'' [] None
            [status_element,
             leaf ''DTSERVER'' (Some (format_datetime (pads_year P) (end_date st))),
             leaf ''LANGUAGE'' (Some (Language_value (language (settings st)))),
             Element ''FI'' [] None
               [leaf ''ORG'' (Some (org (financial_institution st))),
                leaf ''FID'' (Some (fid (financial_institution st)))]]],
       Element ''BANKMSGSRSV1'' [] None
         [Element ''STMTTRNRS'' [] None
            [leaf ''TRNUID'' (Some uid), status_element,
             Element ''STMTRS'' [] None
               [leaf ''CURDEF'' (Some (Currency_value (currency (settings st)))),
                Element ''BANKACCTFROM'' [] None
                  [leaf ''BANKID'' (Some (bank_id (bank_account st))),
                   leaf ''BRANCHID'' (branch_id (bank_account st)),
                   leaf ''ACCTID'' (Some (account_id (bank_account st))),
                   leaf ''ACCTTYPE'' (Some (AccountType_value (account_type (bank_account st))))],
                Element ''BANKTRANLIST'' [] None
                  (leaf ''DTSTART'' (Some (format_datetime (pads_year P) (start_date st))) #
                   leaf ''DTEND'' (Some (format_datetime (pads_year P) (end_date st))) #
                   map (stmttrn P self) (transactions st)),
                Element ''LEDGERBAL'' [] None
                  [leaf ''BALAMT'' (Some (decimal_str (bal_amount (balance st)))),
                   leaf ''DTASOF'' (Some (format_datetime (pads_year P) (date_as_of (balance st))))]]]]] @
      (case credit_card_account st of
         None \<Rightarrow> []
       | Some c \<Rightarrow>
           [leaf ''CASHADVAVAILAMT'' (Some (float_str P (cash_advance_available_amount c))),
            leaf ''CASHADVCREDITLIMIT'' (Some (float_str P (cash_advance_credit_limit c)))]))"
  by (simp add: generate_tree_def add_signon_response_def add_bank_statement_def
      create_ofx_element_def add_account_info_def add_transactions_def add_balance_def
      add_credit_card_info_def fold_add_transaction split: option.split)

lemma elements_stmttrn:
  "elements (stmttrn P self t) =
   stmttrn P self t #
   [leaf ''TRNTYPE'' (Some (TransactionType_value (transaction_type t))),
    leaf ''DTPOSTED'' (Some (format_datetime (pads_year P) (date_posted t))),
    leaf ''TRNAMT'' (Some (decimal_str (amount t))),
    leaf ''FITID'' (Some (fit_id t))] @
   (if truthy (check_num t) then [leaf ''CHECKNUM'' (check_num t)] else []) @
   (if truthy (ref_num t) then [leaf ''REFNUM'' (ref_num t)] else []) @
   (if truthy (memo t) then [leaf ''MEMO'' (memo t)] else [])"
  by (simp add: stmttrn_def leaf_def)

lemma tag_stmttrn: "tag (stmttrn P self t) = ''STMTTRN''"
  by (simp add: stmttrn_def)

lemma filter_elements_stmttrns:
  "filter (\<lambda>e. tag e = ''STMTTRN'') (concat (map (elements \<circ> stmttrn P self) ts)) =
   map (stmttrn P self) ts"
  by (induction ts) (simp_all add: elements_stmttrn tag_stmttrn leaf_def)

lemma filter_elements_other:
  "g \<noteq> ''STMTTRN'' \<Longrightarrow> g \<noteq> ''TRNTYPE'' \<Longrightarrow> g \<noteq> ''DTPOSTED'' \<Longrightarrow> g \<noteq> ''TRNAMT'' \<Longrightarrow>
   g \<noteq> ''FITID'' \<Longrightarrow> g \<noteq> ''CHECKNUM'' \<Longrightarrow> g \<noteq> ''REFNUM'' \<Longrightarrow> g \<noteq> ''MEMO'' \<Longrightarrow>
   filter (\<lambda>e. tag e = g) (concat (map (elements \<circ> stmttrn P self) ts)) = []"
  by (induction ts) (auto simp add: elements_stmttrn tag_stmttrn leaf_def)

lemma filter_elements_checknum:
  "filter (\<lambda>e. tag e = ''CHECKNUM'') (concat (map (elements \<circ> stmttrn P self) ts)) =
   map (\<lambda>t. leaf ''CHECKNUM'' (check_num t)) (filter (\<lambda>t. truthy (check_num t)) ts)"
  by (induction ts) (simp_all add: elements_stmttrn tag_stmttrn leaf_def)

lemma filter_elements_refnum:
  "filter (\<lambda>e. tag e = ''REFNUM'') (concat (map (elements \<circ> stmttrn P self) ts)) =
   map (\<lambda>t. leaf ''REFNUM'' (ref_num t)) (filter (\<lambda>t. truthy (ref_num t)) ts)"
  by (induction ts) (simp_all add: elements_stmttrn tag_stmttrn leaf_def)

lemma filter_elements_memo:
  "filter (\<lambda>e. tag e = ''MEMO'') (concat (map (elements \<circ> stmttrn P self) ts)) =
   map (\<lambda>t. leaf ''MEMO'' (memo t)) (filter (\<lambda>t. truthy (memo t)) ts)"
  by (induction ts) (simp_all add: elements_stmttrn tag_stmttrn leaf_def)

lemma serialize_xml_contains:
  "e' \<in> set (elements e) \<Longrightarrow> \<exists>pre suf. serialize_xml e = pre @ serialize_xml e' @ suf"
proof (induction e)
  case (Element t a x cs)
  show ?case
  proof (cases "e' = Element t a x cs")
    case True
    then have "serialize_xml (Element t a x cs) = [] @ serialize_xml e' @ []" by simp
    then show ?thesis by blast
  next
    case False
    with Element.prems obtain c where c: "c \<in> set cs" "e' \<in> set (elements c)"
      by auto
    from Element.IH [OF c] obtain p s where ps: "serialize_xml c = p @ serialize_xml e' @ s"
      by blast
    from c(1) obtain cs1 cs2 where cs: "cs = cs1 @ c # cs2"
      by (auto dest: split_list)
    have "serialize_xml (Element t a x cs) =
        (''<'' @ t @ concat (map (\<lambda>(k, v). '' '' @ k @ ''='' @ dq @ escape_attrib v @ dq) a) @
         ''>'' @ (if truthy x then escape_cdata (the x) else []) @
         concat (map serialize_xml cs1) @ p) @ serialize_xml e' @
        (s @ concat (map serialize_xml cs2) @ ''</'' @ t @ ''>'')"
      using cs ps by simp
    then show ?thesis by blast
  qed
qed

text \<open>
  Claim C6. The \<open>STMTTRN\<close> aggregates of the generated document are the aggregates of
  the statement's transactions, in the order of the stored list, and there are as many
  as the list is long. They are the children of the one \<open>BANKTRANLIST\<close>, after
  \<open>DTSTART\<close> and \<open>DTEND\<close>; read in document order, their \<open>FITID\<close>s are the
  transactions' ids in list order. In the returned string the \<open>BANKTRANLIST\<close> element
  holds the serialised aggregates one after the other, in that order.
\<close>

theorem stmttrn_in_statement_order:
  "filter (\<lambda>e. tag e = ''BANKTRANLIST'') (elements (generate_tree P self st uid)) =
     [Element ''BANKTRANLIST'' [] None
        (leaf ''DTSTART'' (Some (format_datetime (pads_year P) (start_date st))) #
         leaf ''DTEND'' (Some (format_datetime (pads_year P) (end_date st))) #
         map (stmttrn P self) (transactions st))] \<and>
   filter (\<lambda>e. tag e = ''STMTTRN'') (elements (generate_tree P self st uid)) =
     map (stmttrn P self) (transactions st) \<and>
   length (filter (\<lambda>e. tag e = ''STMTTRN'') (elements (generate_tree P self st uid))) =
     length (transactions st) \<and>
   map (\<lambda>e. map etext (children_tagged ''FITID'' e))
     (filter (\<lambda>e. tag e = ''STMTTRN'') (elements (generate_tree P self st uid))) =
     map (\<lambda>t. [Some (fit_id t)]) (transactions st) \<and>
   (\<exists>pre suf. generate P self st uid =
      pre @ ''<BANKTRANLIST>'' @
      serialize_xml (leaf ''DTSTART'' (Some (format_datetime (pads_year P) (start_date st)))) @
      serialize_xml (leaf ''DTEND'' (Some (format_datetime (pads_year P) (end_date st)))) @
      concat (map (\<lambda>t. serialize_xml (stmttrn P self t)) (transactions st)) @
      ''</BANKTRANLIST>'' @ suf)"
proof -
  have trns: "filter (\<lambda>e. tag e = ''STMTTRN'') (elements (generate_tree P self st uid)) =
      map (stmttrn P self) (transactions st)"
    by (simp add: generate_tree_shape filter_elements_stmttrns leaf_def status_element_def
        split: option.split)
  have lst: "filter (\<lambda>e. tag e = ''BANKTRANLIST'') (elements (generate_tree P self st uid)) =
     [Element ''BANKTRANLIST'' [] None
        (leaf ''DTSTART'' (Some (format_datetime (pads_year P) (start_date st))) #
         leaf ''DTEND'' (Some (format_datetime (pads_year P) (end_date st))) #
         map (stmttrn P self) (transactions st))]"
    by (simp add: generate_tree_shape filter_elements_other leaf_def status_element_def
        split: option.split)
  have fitid: "children_tagged ''FITID'' (stmttrn P self t) = [leaf ''FITID'' (Some (fit_id t))]"
    for t
    by (simp add: children_tagged_def stmttrn_def leaf_def)
  let ?list = "Element ''BANKTRANLIST'' [] None
        (leaf ''DTSTART'' (Some (format_datetime (pads_year P) (start_date st))) #
         leaf ''DTEND'' (Some (format_datetime (pads_year P) (end_date st))) #
         map (stmttrn P self) (transactions st))"
  have "?list \<in> set (filter (\<lambda>e. tag e = ''BANKTRANLIST'')
      (elements (generate_tree P self st uid)))"
    by (simp only: lst list.set_intros)
  then have "?list \<in> set (elements (generate_tree P self st uid))"
    by simp
  from serialize_xml_contains [OF this] obtain p s where
    "serialize_xml (generate_tree P self st uid) = p @ serialize_xml ?list @ s"
    by blast
  moreover have "serialize_xml ?list =
      ''<BANKTRANLIST>'' @
      serialize_xml (leaf ''DTSTART'' (Some (format_datetime (pads_year P) (start_date st)))) @
      serialize_xml (leaf ''DTEND'' (Some (format_datetime (pads_year P) (end_date st)))) @
      concat (map (\<lambda>t. serialize_xml (stmttrn P self t)) (transactions st)) @
      ''</BANKTRANLIST>''"
    by (simp add: comp_def)
  ultimately have "generate P self st uid =
      (''<?xml version='' @ dq @ ''1.0'' @ dq @ '' encoding='' @ dq @ ''UTF-8'' @ dq @
       '' standalone='' @ dq @ ''no'' @ dq @ ''?>'' @ [CHR 0x0A] @ format_ofx_header @ p) @
      ''<BANKTRANLIST>'' @
      serialize_xml (leaf ''DTSTART'' (Some (format_datetime (pads_year P) (start_date st)))) @
      serialize_xml (leaf ''DTEND'' (Some (format_datetime (pads_year P) (end_date st)))) @
      concat (map (\<lambda>t. serialize_xml (stmttrn P self t)) (transactions st)) @
      ''</BANKTRANLIST>'' @ s"
    by (simp add: generate_def generate_output_def)
  then have str: "\<exists>pre suf. generate P self st uid =
      pre @ ''<BANKTRANLIST>'' @
      serialize_xml (leaf ''DTSTART'' (Some (format_datetime (pads_year P) (start_date st)))) @
      serialize_xml (leaf ''DTEND'' (Some (format_datetime (pads_year P) (end_date st)))) @
      concat (map (\<lambda>t. serialize_xml (stmttrn P self t)) (transactions st)) @
      ''</BANKTRANLIST>'' @ suf"
    by blast
  have "map (\<lambda>e. map etext (children_tagged ''FITID'' e))
     (filter (\<lambda>e. tag e = ''STMTTRN'') (elements (generate_tree P self st uid))) =
     map (\<lambda>t. [Some (fit_id t)]) (transactions st)"
    by (simp add: trns fitid leaf_def)
  with trns lst str show ?thesis
    by (simp only: length_map simp_thms)
qed

theorem stmttrn_in_statement_order_witness:
  "map (\<lambda>e. map etext (children_tagged ''FITID'' e))
     (filter (\<lambda>e. tag e = ''STMTTRN'')
        (elements (generate_tree example_platform default_generator example_statement ''1001''))) =
     [[Some ''202501300000''], [Some ''202501220000'']]"
proof -
  note fitids = stmttrn_in_statement_order
    [of example_platform default_generator example_statement "''1001''",
      THEN conjunct2, THEN conjunct2, THEN conjunct2, THEN conjunct1]
  show ?thesis
    unfolding fitids by (simp add: example_statement_def example_transactions_def)
qed

text \<open>
  Claim C7. A transaction without a check number (reference number, memo) gets no
  \<open>CHECKNUM\<close> (\<open>REFNUM\<close>, \<open>MEMO\<close>) element in its \<open>STMTTRN\<close> aggregate. In the whole
  document the \<open>STMTTRN\<close> aggregates are those of the transactions, and the
  \<open>CHECKNUM\<close> (\<open>REFNUM\<close>, \<open>MEMO\<close>) elements are exactly one for each transaction that
  has the field, carrying it: an absent field produces no element, not an empty one.
  Serialised, the aggregate of a transaction with none of the three fields is its four
  required elements between \<open><STMTTRN>\<close> and \<open></STMTTRN>\<close>.
\<close>

theorem absent_optional_fields_omitted:
  "(check_num t = None \<longrightarrow> filter (\<lambda>e. tag e = ''CHECKNUM'') (elements (stmttrn P self t)) = []) \<and>
   (ref_num t = None \<longrightarrow> filter (\<lambda>e. tag e = ''REFNUM'') (elements (stmttrn P self t)) = []) \<and>
   (memo t = None \<longrightarrow> filter (\<lambda>e. tag e = ''MEMO'') (elements (stmttrn P self t)) = []) \<and>
   (check_num t = None \<and> ref_num t = None \<and> memo t = None \<longrightarrow>
      serialize_xml (stmttrn P self t) =
        ''<STMTTRN>'' @
        serialize_xml (leaf ''TRNTYPE'' (Some (TransactionType_value (transaction_type t)))) @
        serialize_xml (leaf ''DTPOSTED'' (Some (format_datetime (pads_year P) (date_posted t)))) @
        serialize_xml (leaf ''TRNAMT'' (Some (decimal_str (amount t)))) @
        serialize_xml (leaf ''FITID'' (Some (fit_id t))) @
        ''</STMTTRN>'') \<and>
   filter (\<lambda>e. tag e = ''STMTTRN'') (elements (generate_tree P self st uid)) =
     map (stmttrn P self) (transactions st) \<and>
   filter (\<lambda>e. tag e = ''CHECKNUM'') (elements (generate_tree P self st uid)) =
     map (\<lambda>t. leaf ''CHECKNUM'' (check_num t))
       (filter (\<lambda>t. truthy (check_num t)) (transactions st)) \<and>
   filter (\<lambda>e. tag e = ''REFNUM'') (elements (generate_tree P self st uid)) =
     map (\<lambda>t. leaf ''REFNUM'' (ref_num t))
       (filter (\<lambda>t. truthy (ref_num t)) (transactions st)) \<and>
   filter (\<lambda>e. tag e = ''MEMO'') (elements (generate_tree P self st uid)) =
     map (\<lambda>t. leaf ''MEMO'' (memo t))
       (filter (\<lambda>t. truthy (memo t)) (transactions st))"
proof (intro conjI)
  show "check_num t = None \<longrightarrow>
      filter (\<lambda>e. tag e = ''CHECKNUM'') (elements (stmttrn P self t)) = []"
    by (simp add: elements_stmttrn tag_stmttrn leaf_def)
  show "ref_num t = None \<longrightarrow>
      filter (\<lambda>e. tag e = ''REFNUM'') (elements (stmttrn P self t)) = []"
    by (simp add: elements_stmttrn tag_stmttrn leaf_def)
  show "memo t = None \<longrightarrow>
      filter (\<lambda>e. tag e = ''MEMO'') (elements (stmttrn P self t)) = []"
    by (simp add: elements_stmttrn tag_stmttrn leaf_def)
  show "check_num t = None \<and> ref_num t = None \<and> memo t = None \<longrightarrow>
      serialize_xml (stmttrn P self t) =
        ''<STMTTRN>'' @
        serialize_xml (leaf ''TRNTYPE'' (Some (TransactionType_value (transaction_type t)))) @
        serialize_xml (leaf ''DTPOSTED'' (Some (format_datetime (pads_year P) (date_posted t)))) @
        serialize_xml (leaf ''TRNAMT'' (Some (decimal_str (amount t)))) @
        serialize_xml (leaf ''FITID'' (Some (fit_id t))) @
        ''</STMTTRN>''"
    by (simp add: stmttrn_def)
  show "filter (\<lambda>e. tag e = ''STMTTRN'') (elements (generate_tree P self st uid)) =
     map (stmttrn P self) (transactions st)"
    by (simp add: generate_tree_shape filter_elements_stmttrns leaf_def status_element_def
        split: option.split)
  show "filter (\<lambda>e. tag e = ''CHECKNUM'') (elements (generate_tree P self st uid)) =
     map (\<lambda>t. leaf ''CHECKNUM'' (check_num t))
       (filter (\<lambda>t. truthy (check_num t)) (transactions st))"
    by (simp add: generate_tree_shape filter_elements_checknum leaf_def status_element_def
        split: option.split)
  show "filter (\<lambda>e. tag e = ''REFNUM'') (elements (generate_tree P self st uid)) =
     map (\<lambda>t. leaf ''REFNUM'' (ref_num t))
       (filter (\<lambda>t. truthy (ref_num t)) (transactions st))"
    by (simp add: generate_tree_shape filter_elements_refnum leaf_def status_element_def
        split: option.split)
  show "filter (\<lambda>e. tag e = ''MEMO'') (elements (generate_tree P self st uid)) =
     map (\<lambda>t. leaf ''MEMO'' (memo t))
       (filter (\<lambda>t. truthy (memo t)) (transactions st))"
    by (simp add: generate_tree_shape filter_elements_memo leaf_def status_element_def
        split: option.split)
qed

theorem absent_optional_fields_omitted_witness:
  "check_num plain_transaction = None \<and> ref_num plain_transaction = None \<and>
   memo plain_transaction = None \<and>
   filter (\<lambda>e. tag e = ''CHECKNUM'')
     (elements (stmttrn example_platform default_generator plain_transaction)) = [] \<and>
   filter (\<lambda>e. tag e = ''REFNUM'')
     (elements (stmttrn example_platform default_generator plain_transaction)) = [] \<and>
   filter (\<lambda>e. tag e = ''MEMO'')
     (elements (stmttrn example_platform default_generator plain_transaction)) = [] \<and>
   map etext (filter (\<lambda>e. tag e = ''CHECKNUM'')
     (elements (generate_tree example_platform default_generator plain_statement ''1001''))) =
     [Some ''000'', Some ''000''] \<and>
   map etext (filter (\<lambda>e. tag e = ''MEMO'')
     (elements (generate_tree example_platform default_generator plain_statement ''1001''))) =
     [Some ''Payment to Vendor'', Some ''Salary Payment''] \<and>
   serialize_xml (stmttrn example_platform default_generator plain_transaction) =
     ''<STMTTRN><TRNTYPE>DEBIT</TRNTYPE><DTPOSTED>20250115</DTPOSTED>'' @
     ''<TRNAMT>-25.50</TRNAMT><FITID>202501150000</FITID></STMTTRN>''"
proof -
  note omitted = absent_optional_fields_omitted
    [of plain_transaction example_platform default_generator plain_statement "''1001''"]
  have none: "check_num plain_transaction = None" "ref_num plain_transaction = None"
    "memo plain_transaction = None"
    by (simp_all add: plain_transaction_def)
  note checknum = omitted [THEN conjunct1, rule_format, OF none(1)]
  note refnum = omitted [THEN conjunct2, THEN conjunct1, rule_format, OF none(2)]
  note memo = omitted [THEN conjunct2, THEN conjunct2, THEN conjunct1, rule_format, OF none(3)]
  note checknums = omitted [THEN conjunct2, THEN conjunct2, THEN conjunct2, THEN conjunct2,
      THEN conjunct2, THEN conjunct1]
  note memos = omitted [THEN conjunct2, THEN conjunct2, THEN conjunct2, THEN conjunct2,
      THEN conjunct2, THEN conjunct2, THEN conjunct2]
  note plain = omitted [THEN conjunct2, THEN conjunct2, THEN conjunct2, THEN conjunct1,
      rule_format, OF conjI [OF none(1) conjI [OF none(2) none(3)]]]
  have "map etext (filter (\<lambda>e. tag e = ''CHECKNUM'')
     (elements (generate_tree example_platform default_generator plain_statement ''1001''))) =
     [Some ''000'', Some ''000'']"
    unfolding checknums
    by (simp add: plain_transaction_def plain_statement_def example_statement_def
        example_transactions_def leaf_def)
  moreover have "map etext (filter (\<lambda>e. tag e = ''MEMO'')
     (elements (generate_tree example_platform default_generator plain_statement ''1001''))) =
     [Some ''Payment to Vendor'', Some ''Salary Payment'']"
    unfolding memos
    by (simp add: plain_transaction_def plain_statement_def example_statement_def
        example_transactions_def leaf_def)
  moreover have "serialize_xml (stmttrn example_platform default_generator plain_transaction) =
     ''<STMTTRN><TRNTYPE>DEBIT</TRNTYPE><DTPOSTED>20250115</DTPOSTED>'' @
     ''<TRNAMT>-25.50</TRNAMT><FITID>202501150000</FITID></STMTTRN>''"
    unfolding plain
    by (simp add: plain_transaction_def example_platform_def leaf_def date_format_defs
        sign_str_def escape_cdata_def)
  ultimately show ?thesis
    using none checknum refnum memo by simp
qed

text \<open>
  Claim C10. The \<open>BRANCHID\<close> element is emitted for every statement: the one
  \<open>BANKACCTFROM\<close> aggregate of the document always has the four children \<open>BANKID\<close>,
  \<open>BRANCHID\<close>, \<open>ACCTID\<close>, \<open>ACCTTYPE\<close>. When the account has no branch id, the
  \<open>BRANCHID\<close> element has no text, and the returned string contains it as the empty
  element \<open><BRANCHID />\<close>.
\<close>

theorem branch_id_emitted_when_absent:
  "filter (\<lambda>e. tag e = ''BANKACCTFROM'') (elements (generate_tree P self st uid)) =
     [Element ''BANKACCTFROM'' [] None
        [leaf ''BANKID'' (Some (bank_id (bank_account st))),
         leaf ''BRANCHID'' (branch_id (bank_account st)),
         leaf ''ACCTID'' (Some (account_id (bank_account st))),
         leaf ''ACCTTYPE'' (Some (AccountType_value (account_type (bank_account st))))]] \<and>
   (branch_id (bank_account st) = None \<longrightarrow>
      filter (\<lambda>e. tag e = ''BRANCHID'') (elements (generate_tree P self st uid)) =
        [Element ''BRANCHID'' [] None []] \<and>
      (\<exists>pre suf. generate P self st uid = pre @ ''<BRANCHID />'' @ suf))"
proof (intro conjI impI)
  show "filter (\<lambda>e. tag e = ''BANKACCTFROM'') (elements (generate_tree P self st uid)) =
     [Element ''BANKACCTFROM'' [] None
        [leaf ''BANKID'' (Some (bank_id (bank_account st))),
         leaf ''BRANCHID'' (branch_id (bank_account st)),
         leaf ''ACCTID'' (Some (account_id (bank_account st))),
         leaf ''ACCTTYPE'' (Some (AccountType_value (account_type (bank_account st))))]]"
    by (simp add: generate_tree_shape filter_elements_other leaf_def status_element_def
        split: option.split)
next
  assume none: "branch_id (bank_account st) = None"
  show br: "filter (\<lambda>e. tag e = ''BRANCHID'') (elements (generate_tree P self st uid)) =
      [Element ''BRANCHID'' [] None []]"
    using none
    by (simp add: generate_tree_shape filter_elements_other leaf_def status_element_def
        split: option.split)
  have "Element ''BRANCHID'' [] None [] \<in>
      set (filter (\<lambda>e. tag e = ''BRANCHID'') (elements (generate_tree P self st uid)))"
    by (simp only: br list.set_intros)
  then have "Element ''BRANCHID'' [] None [] \<in> set (elements (generate_tree P self st uid))"
    by simp
  from serialize_xml_contains [OF this] obtain p s where
    "serialize_xml (generate_tree P self st uid) =
       p @ serialize_xml (Element ''BRANCHID'' [] None []) @ s"
    by blast
  then have "generate P self st uid =
      (''<?xml version='' @ dq @ ''1.0'' @ dq @ '' encoding='' @ dq @ ''UTF-8'' @ dq @
       '' standalone='' @ dq @ ''no'' @ dq @ ''?>'' @ [CHR 0x0A] @ format_ofx_header @ p) @
      ''<BRANCHID />'' @ s"
    by (simp add: generate_def generate_output_def)
  then show "\<exists>pre suf. generate P self st uid = pre @ ''<BRANCHID />'' @ suf"
    by blast
qed

theorem branch_id_emitted_when_absent_witness:
  "branch_id (bank_account plain_statement) = None \<and>
   filter (\<lambda>e. tag e = ''BRANCHID'')
     (elements (generate_tree example_platform default_generator plain_statement ''1001'')) =
     [Element ''BRANCHID'' [] None []] \<and>
   (\<exists>pre suf. generate example_platform default_generator plain_statement ''1001'' =
      pre @ ''<BRANCHID />'' @ suf)"
proof -
  have none: "branch_id (bank_account plain_statement) = None"
    by (simp add: plain_statement_def)
  from branch_id_emitted_when_absent
    [of example_platform default_generator plain_statement "''1001''",
      THEN conjunct2, rule_format, OF none] none
  show ?thesis by simp
qed

section \<open>Bank identifiers\<close>







section \<open>Decimal digits\<close>

lemma digit_cases:
  "d < 10 \<Longrightarrow> d = 0 \<or> d = 1 \<or> d = 2 \<or> d = 3 \<or> d = 4 \<or> d = 5 \<or> d = 6 \<or> d = 7 \<or> d = 8 \<or> d = (9::nat)"
  by arith

lemma is_digit_digit_char: "d < 10 \<Longrightarrow> is_digit (digit_char d)"
  using digit_cases [of d] by (auto simp add: digit_char_def is_digit_def)

lemma digit_val_digit_char: "d < 10 \<Longrightarrow> digit_val (digit_char d) = d"
  using digit_cases [of d] by (auto simp add: digit_char_def digit_val_def)

lemma str_nat_small: "n < 10 \<Longrightarrow> str_nat n = [digit_char n]"
  by (simp add: str_nat.simps)

lemma str_nat_large: "10 \<le> n \<Longrightarrow> str_nat n = str_nat (n div 10) @ [digit_char (n mod 10)]"
  by (subst str_nat.simps) simp

lemma str_nat_digits: "list_all is_digit (str_nat n)"
proof (induction n rule: str_nat.induct)
  case (1 n)
  show ?case
  proof (cases "n < 10")
    case True
    then show ?thesis by (simp add: str_nat_small is_digit_digit_char)
  next
    case False
    then show ?thesis using "1.IH" by (simp add: str_nat_large is_digit_digit_char)
  qed
qed

lemma str_nat_nonempty: "str_nat n \<noteq> []"
  by (subst str_nat.simps) simp

lemma nat_of_digits_snoc: "nat_of_digits (ds @ [c]) = 10 * nat_of_digits ds + digit_val c"
  by (simp add: nat_of_digits_def)

lemma nat_of_digits_append:
  "nat_of_digits (xs @ ys) = nat_of_digits xs * 10 ^ length ys + nat_of_digits ys"
proof (induction ys rule: rev_induct)
  case Nil
  show ?case by (simp add: nat_of_digits_def)
next
  case (snoc y ys)
  have "nat_of_digits (xs @ ys @ [y]) = 10 * nat_of_digits (xs @ ys) + digit_val y"
    using nat_of_digits_snoc [of "xs @ ys" y] by simp
  then show ?case
    by (simp add: snoc.IH nat_of_digits_snoc algebra_simps)
qed

lemma nat_of_digits_zeros: "nat_of_digits (zeros k) = 0"
  by (induction k) (simp_all add: zeros_def nat_of_digits_def digit_val_def)

lemma nat_of_digits_str_nat: "nat_of_digits (str_nat n) = n"
proof (induction n rule: str_nat.induct)
  case (1 n)
  show ?case
  proof (cases "n < 10")
    case True
    then show ?thesis
      by (simp add: str_nat_small nat_of_digits_def digit_val_digit_char)
  next
    case False
    then show ?thesis
      using "1.IH" by (simp add: str_nat_large nat_of_digits_snoc digit_val_digit_char)
  qed
qed

lemma length_str_nat_le: "n < 10 ^ k \<Longrightarrow> 0 < k \<Longrightarrow> length (str_nat n) \<le> k"
proof (induction n arbitrary: k rule: str_nat.induct)
  case (1 n)
  show ?case
  proof (cases "n < 10")
    case True
    with "1.prems" show ?thesis by (simp add: str_nat_small)
  next
    case False
    from "1.prems" obtain j where k: "k = Suc j" by (cases k) auto
    from False "1.prems" k have "0 < j" by (cases j) auto
    moreover from "1.prems" k have "n div 10 < 10 ^ j"
      by (simp add: less_mult_imp_div_less mult.commute)
    ultimately have "length (str_nat (n div 10)) \<le> j"
      using "1.IH" False by simp
    with False k show ?thesis by (simp add: str_nat_large)
  qed
qed

lemma length_str_nat_gt: "10 ^ k \<le> n \<Longrightarrow> k < length (str_nat n)"
proof (induction n arbitrary: k rule: str_nat.induct)
  case (1 n)
  show ?case
  proof (cases k)
    case 0
    then show ?thesis using str_nat_nonempty [of n] by (cases "str_nat n") auto
  next
    case (Suc j)
    have "(1::nat) \<le> 10 ^ j" by simp
    moreover from "1.prems" Suc have "10 * 10 ^ j \<le> n" by simp
    ultimately have n10: "\<not> n < 10" by linarith
    from "1.prems" Suc have "10 ^ j \<le> n div 10"
      by (simp add: div_le_mono less_eq_div_iff_mult_less_eq mult.commute)
    then have "j < length (str_nat (n div 10))"
      using "1.IH" n10 by simp
    with n10 Suc show ?thesis by (simp add: str_nat_large)
  qed
qed

lemma length_str_nat_eq:
  "10 ^ k \<le> n \<Longrightarrow> n < 10 ^ Suc k \<Longrightarrow> length (str_nat n) = Suc k"
  using length_str_nat_le [of n "Suc k"] length_str_nat_gt [of k n] by simp

section \<open>The default date formatter\<close>

lemma zeros_digits: "list_all is_digit (zeros k)"
  by (induction k) (simp_all add: zeros_def is_digit_def)

lemma nat_of_digits_zeros_append: "nat_of_digits (zeros k @ ds) = nat_of_digits ds"
  by (simp add: nat_of_digits_append nat_of_digits_zeros)

lemma pad2_props:
  assumes "n < 100"
  shows "length (pad2 n) = 2" "list_all is_digit (pad2 n)" "nat_of_digits (pad2 n) = n"
proof -
  have "length (str_nat n) \<le> 2"
    using assms length_str_nat_le [of n 2] by simp
  moreover have "0 < length (str_nat n)"
    using str_nat_nonempty [of n] by simp
  ultimately show "length (pad2 n) = 2"
    by (simp add: pad2_def zeros_def)
  show "list_all is_digit (pad2 n)"
    by (simp add: pad2_def zeros_digits str_nat_digits)
  show "nat_of_digits (pad2 n) = n"
    by (simp add: pad2_def nat_of_digits_zeros_append nat_of_digits_str_nat)
qed

lemma strftime_Y_props:
  assumes "y \<le> 9999" and "pads \<or> 1000 \<le> y"
  shows "length (strftime_Y pads y) = 4" "list_all is_digit (strftime_Y pads y)"
    "nat_of_digits (strftime_Y pads y) = y"
proof -
  have le: "length (str_nat y) \<le> 4"
    using assms(1) length_str_nat_le [of y 4] by simp
  have "length (str_nat y) = 4" if "1000 \<le> y"
    using that assms(1) length_str_nat_eq [of 3 y] by simp
  with le assms(2) show "length (strftime_Y pads y) = 4"
    by (auto simp add: strftime_Y_def zeros_def)
  show "list_all is_digit (strftime_Y pads y)"
    by (simp add: strftime_Y_def zeros_digits str_nat_digits)
  show "nat_of_digits (strftime_Y pads y) = y"
    by (simp add: strftime_Y_def nat_of_digits_zeros_append nat_of_digits_str_nat)
qed

lemma days_in_month_le: "days_in_month y m \<le> 31"
  by (simp add: days_in_month_def)

text \<open>
  Where \<open>strftime\<close> pads the year, and for every year from 1000 on wherever it runs,
  the default date formatter returns eight digits that read back as the date.
\<close>

lemma date_format_roundtrip:
  assumes "valid_date d" and "pads \<or> 1000 \<le> year d"
  shows "length (DefaultDateFormatter_format pads d) = 8 \<and>
         list_all is_digit (DefaultDateFormatter_format pads d) \<and>
         strptime_Ymd (DefaultDateFormatter_format pads d) = Some d"
proof -
  from assms(1) have y: "year d \<le> 9999" and m: "month d < 100" and dd: "day d < 100"
    using days_in_month_le [of "year d" "month d"] by (simp_all add: valid_date_def)
  note Y = strftime_Y_props [OF y assms(2)]
  note M = pad2_props [OF m]
  note D = pad2_props [OF dd]
  let ?s = "strftime_Y pads (year d) @ pad2 (month d) @ pad2 (day d)"
  have len: "length ?s = 8" by (simp add: Y M D)
  have dig: "list_all is_digit ?s" by (simp add: Y M D)
  have parts: "take 4 ?s = strftime_Y pads (year d)" "take 2 (drop 4 ?s) = pad2 (month d)"
    "drop 6 ?s = pad2 (day d)"
    by (simp_all add: Y M D)
  have "\<lparr>year = nat_of_digits (take 4 ?s), month = nat_of_digits (take 2 (drop 4 ?s)),
         day = nat_of_digits (drop 6 ?s)\<rparr> = d"
    unfolding parts by (simp add: Y M D)
  then have "strptime_Ymd ?s = Some d"
    using len dig assms(1) by (simp add: strptime_Ymd_def)
  with len dig show ?thesis
    by (simp add: DefaultDateFormatter_format_def strftime_Ymd_def)
qed

text \<open>
  Claim C3. The default date formatter should return eight zero-padded digits for every
  calendar date. It formats 2025-01-31 as \<open>20250131\<close>, but where \<open>strftime\<close> does not pad
  the year it writes the valid date 0999-01-01 as the seven characters \<open>9990101\<close>,
  which do not read back as that date.
\<close>

theorem date_format_year_not_padded:
  "valid_date \<lparr>year = 999, month = 1, day = 1\<rparr> \<and>
   DefaultDateFormatter_format False \<lparr>year = 999, month = 1, day = 1\<rparr> = ''9990101'' \<and>
   length (DefaultDateFormatter_format False \<lparr>year = 999, month = 1, day = 1\<rparr>) = 7 \<and>
   strptime_Ymd (DefaultDateFormatter_format False \<lparr>year = 999, month = 1, day = 1\<rparr>) = None \<and>
   DefaultDateFormatter_format False \<lparr>year = 2025, month = 1, day = 31\<rparr> = ''20250131''"
  by (simp add: valid_date_def days_in_month_def date_format_defs strptime_Ymd_def)

section \<open>The default amount formatter\<close>

















end
